theory Spec2Isabelle
  imports Complex_Main
begin

section \<open>Numbers, vectors and colours\<close>

text \<open>
  The particle engine computes with JavaScript numbers. They are modelled as exact reals:
  \<open>Math.sin\<close>, \<open>Math.cos\<close> and \<open>Math.sqrt\<close> are the real functions, and a store into a
  \<open>Float32Array\<close> keeps the value as it is. Rounding, overflow and the values NaN and
  Infinity are outside this model.
\<close>

text \<open>\<open>Math.atan2(y, x)\<close>: the angle of the point \<open>(x, y)\<close>, with \<open>atan2(0, 0) = 0\<close>.\<close>

definition atan2 :: "real \<Rightarrow> real \<Rightarrow> real" where
  "atan2 b a =
     (if 0 < a then arctan (b / a)
      else if a < 0 then (if 0 \<le> b then arctan (b / a) + pi else arctan (b / a) - pi)
      else if 0 < b then pi / 2
      else if b < 0 then - (pi / 2)
      else 0)"

text \<open>\<open>THREE.Vector3\<close> with the methods the engine calls.\<close>

datatype vector3 = Vector3 (vec_x: real) (vec_y: real) (vec_z: real)

definition length_v3 :: "vector3 \<Rightarrow> real" where
  "length_v3 v = sqrt (vec_x v * vec_x v + vec_y v * vec_y v + vec_z v * vec_z v)"

definition add_v3 :: "vector3 \<Rightarrow> vector3 \<Rightarrow> vector3" where
  "add_v3 v w = Vector3 (vec_x v + vec_x w) (vec_y v + vec_y w) (vec_z v + vec_z w)"

definition sub_v3 :: "vector3 \<Rightarrow> vector3 \<Rightarrow> vector3" where
  "sub_v3 v w = Vector3 (vec_x v - vec_x w) (vec_y v - vec_y w) (vec_z v - vec_z w)"

definition multiplyScalar :: "vector3 \<Rightarrow> real \<Rightarrow> vector3" where
  "multiplyScalar v s = Vector3 (vec_x v * s) (vec_y v * s) (vec_z v * s)"

definition divideScalar :: "vector3 \<Rightarrow> real \<Rightarrow> vector3" where
  "divideScalar v s = multiplyScalar v (1 / s)"

text \<open>
  \<open>normalize()\<close> is \<open>this.divideScalar(this.length() || 1)\<close>: a vector of length zero
  is divided by one, so it stays the zero vector.
\<close>

definition normalize :: "vector3 \<Rightarrow> vector3" where
  "normalize v = divideScalar v (if length_v3 v = 0 then 1 else length_v3 v)"

definition distanceTo :: "vector3 \<Rightarrow> vector3 \<Rightarrow> real" where
  "distanceTo v w = length_v3 (sub_v3 v w)"

text \<open>\<open>THREE.Color\<close> and \<open>lerpColors(c1, c2, alpha)\<close>.\<close>

datatype color = Color (col_r: real) (col_g: real) (col_b: real)

definition lerpColors :: "color \<Rightarrow> color \<Rightarrow> real \<Rightarrow> color" where
  "lerpColors c1 c2 alpha =
     Color (col_r c1 + (col_r c2 - col_r c1) * alpha)
           (col_g c1 + (col_g c2 - col_g c1) * alpha)
           (col_b c1 + (col_b c2 - col_b c1) * alpha)"

section \<open>Motion presets\<close>

text \<open>
  Each preset mutates the position vector it is given; the model returns the new vector.
  The index is the particle's number, the time the engine's elapsed time.
\<close>

definition applyGalaxyAnimation :: "vector3 \<Rightarrow> nat \<Rightarrow> real \<Rightarrow> vector3" where
  "applyGalaxyAnimation position index t =
     (let distance = sqrt (vec_x position * vec_x position + vec_z position * vec_z position);
          angle = atan2 (vec_z position) (vec_x position);
          rotationSpeed = 0.001 / (distance * 0.01 + 1);
          newAngle = angle + rotationSpeed * t
      in Vector3 (distance * cos newAngle)
                 (vec_y position + sin (t * 0.5 + real index * 0.01) * 0.1)
                 (distance * sin newAngle))"

definition applyNebulaAnimation :: "vector3 \<Rightarrow> nat \<Rightarrow> real \<Rightarrow> vector3" where
  "applyNebulaAnimation position index t =
     (let noise = sin (t * 0.3 + real index * 0.1) * cos (t * 0.2 + real index * 0.05)
      in Vector3 (vec_x position + noise * 0.2)
                 (vec_y position + sin (t * 0.4 + real index * 0.08) * 0.15)
                 (vec_z position + cos (t * 0.35 + real index * 0.06) * 0.18))"

definition explosionFactor :: "real \<Rightarrow> real" where
  "explosionFactor t = sin (t * 0.5) * 0.5 + 0.5"

definition applyExplosionAnimation :: "vector3 \<Rightarrow> nat \<Rightarrow> real \<Rightarrow> vector3" where
  "applyExplosionAnimation position index t =
     (let direction = normalize position
      in add_v3 position (multiplyScalar direction (explosionFactor t * 2)))"

definition applyWaveAnimation :: "vector3 \<Rightarrow> nat \<Rightarrow> real \<Rightarrow> vector3" where
  "applyWaveAnimation position index t =
     (let waveHeight = sin (vec_x position * 0.05 + t) * 10
      in Vector3 (vec_x position)
                 (waveHeight + sin (t * 2 + real index * 0.1) * 2)
                 (vec_z position))"

definition applySpiralAnimation :: "vector3 \<Rightarrow> nat \<Rightarrow> real \<Rightarrow> vector3" where
  "applySpiralAnimation position index t =
     (let height = vec_y position;
          radius = sqrt (vec_x position * vec_x position + vec_z position * vec_z position);
          angle = atan2 (vec_z position) (vec_x position) + t * 0.5 + height * 0.01
      in Vector3 (radius * cos angle) (vec_y position) (radius * sin angle))"

definition applyAuroraAnimation :: "vector3 \<Rightarrow> nat \<Rightarrow> real \<Rightarrow> vector3" where
  "applyAuroraAnimation position index t =
     (let wave1 = sin (vec_x position * 0.02 + t * 2) * 5;
          wave2 = cos (vec_z position * 0.03 + t * 1.5) * 3
      in Vector3 (vec_x position)
                 (wave1 + wave2 + sin (t + real index * 0.1) * 2)
                 (vec_z position))"

text \<open>The \<open>switch\<close> on the current preset name; every other name takes the default branch.\<close>

definition applyPresetAnimation :: "string \<Rightarrow> vector3 \<Rightarrow> nat \<Rightarrow> real \<Rightarrow> vector3" where
  "applyPresetAnimation currentPreset position index t =
     (if currentPreset = ''galaxy'' then applyGalaxyAnimation position index t
      else if currentPreset = ''nebula'' then applyNebulaAnimation position index t
      else if currentPreset = ''explosion'' then applyExplosionAnimation position index t
      else if currentPreset = ''wave'' then applyWaveAnimation position index t
      else if currentPreset = ''spiral'' then applySpiralAnimation position index t
      else if currentPreset = ''aurora'' then applyAuroraAnimation position index t
      else position)"

section \<open>Shape names and shape types\<close>

text \<open>
  \<open>getShapeType\<close> and \<open>getShapeName\<close> look a key up in an object literal and fall back
  with \<open>||\<close>. A property read on an object literal also finds the members the literal
  inherits from \<open>Object.prototype\<close>, and \<open>||\<close> returns its left operand whenever that is
  truthy, so the values that can come back are numbers, strings, built-in functions, the
  prototype object, and \<open>undefined\<close>.
\<close>

datatype js_value =
    JNumber int
  | JString string
  | JFunction string
  | JObjectPrototype
  | JUndefined

definition truthy :: "js_value \<Rightarrow> bool" where
  "truthy v =
     (case v of
        JNumber n \<Rightarrow> n \<noteq> 0
      | JString s \<Rightarrow> s \<noteq> []
      | JFunction f \<Rightarrow> True
      | JObjectPrototype \<Rightarrow> True
      | JUndefined \<Rightarrow> False)"

definition js_or :: "js_value \<Rightarrow> js_value \<Rightarrow> js_value" where
  "js_or a b = (if truthy a then a else b)"

text \<open>The members every object literal inherits from \<open>Object.prototype\<close>.\<close>

definition object_prototype :: "(string \<times> js_value) list" where
  "object_prototype =
     [(''constructor'', JFunction ''Object''),
      (''hasOwnProperty'', JFunction ''hasOwnProperty''),
      (''isPrototypeOf'', JFunction ''isPrototypeOf''),
      (''propertyIsEnumerable'', JFunction ''propertyIsEnumerable''),
      (''toLocaleString'', JFunction ''toLocaleString''),
      (''toString'', JFunction ''toString''),
      (''valueOf'', JFunction ''valueOf''),
      (''__proto__'', JObjectPrototype),
      (''__defineGetter__'', JFunction ''__defineGetter__''),
      (''__defineSetter__'', JFunction ''__defineSetter__''),
      (''__lookupGetter__'', JFunction ''__lookupGetter__''),
      (''__lookupSetter__'', JFunction ''__lookupSetter__'')]"

text \<open>\<open>obj[key]\<close> on an object literal with the given own properties.\<close>

definition js_get :: "(string \<times> js_value) list \<Rightarrow> string \<Rightarrow> js_value" where
  "js_get own key =
     (case map_of own key of
        Some v \<Rightarrow> v
      | None \<Rightarrow> (case map_of object_prototype key of Some v \<Rightarrow> v | None \<Rightarrow> JUndefined))"

text \<open>The decimal numeral of a natural number, and the property key a value is turned into.\<close>

fun digits :: "nat \<Rightarrow> string" where
  "digits n = (if n < 10 then [''0123456789'' ! n] else digits (n div 10) @ [''0123456789'' ! (n mod 10)])"

definition to_property_key :: "js_value \<Rightarrow> string" where
  "to_property_key v =
     (case v of
        JNumber n \<Rightarrow> (if n < 0 then ''-'' @ digits (nat (- n)) else digits (nat n))
      | JString s \<Rightarrow> s
      | JFunction f \<Rightarrow> ''function '' @ f @ ''() { [native code] }''
      | JObjectPrototype \<Rightarrow> ''[object Object]''
      | JUndefined \<Rightarrow> ''undefined'')"

definition shapeMap :: "(string \<times> js_value) list" where
  "shapeMap = [(''circle'', JNumber 0), (''square'', JNumber 1), (''star'', JNumber 2), (''heart'', JNumber 3)]"

definition getShapeType :: "string \<Rightarrow> js_value" where
  "getShapeType shapeName = js_or (js_get shapeMap shapeName) (JNumber 0)"

definition typeMap :: "(string \<times> js_value) list" where
  "typeMap = [(''0'', JString ''circle''), (''1'', JString ''square''), (''2'', JString ''star''), (''3'', JString ''heart'')]"

text \<open>\<open>getShapeName\<close> reads the material's \<open>shapeType\<close> uniform; the model takes its value.\<close>

definition getShapeName :: "js_value \<Rightarrow> js_value" where
  "getShapeName shapeType = js_or (js_get typeMap (to_property_key shapeType)) (JString ''circle'')"

section \<open>The shader material\<close>

text \<open>The uniforms of \<open>ParticleShaderMaterial\<close>.\<close>

record material =
  u_time :: real
  globalSize :: real
  u_baseColor :: color
  u_accentColor :: color
  shapeType :: js_value

text \<open>
  The constructor, called with \<open>{baseColor, accentColor, size, shape}\<close>:
  \<open>options.size || 2.0\<close> replaces a size of zero, \<open>options.shape || 'circle'\<close> an empty name.
\<close>

definition newMaterial :: "color \<Rightarrow> color \<Rightarrow> real \<Rightarrow> string \<Rightarrow> material" where
  "newMaterial base accent sz shape =
     \<lparr>u_time = 0,
      globalSize = (if sz = 0 then 2 else sz),
      u_baseColor = base,
      u_accentColor = accent,
      shapeType = getShapeType (if shape = [] then ''circle'' else shape)\<rparr>"

definition updateTime :: "real \<Rightarrow> material \<Rightarrow> material" where
  "updateTime t m = m\<lparr>u_time := t\<rparr>"

text \<open>\<open>updateProperties\<close> of the material, as the engine calls it: with \<open>{baseColor, accentColor, size}\<close>.\<close>

definition material_updateProperties :: "color \<Rightarrow> color \<Rightarrow> real \<Rightarrow> material \<Rightarrow> material" where
  "material_updateProperties base accent sz m =
     m\<lparr>u_baseColor := base, u_accentColor := accent, globalSize := sz\<rparr>"

section \<open>The particle system\<close>

text \<open>The five attribute arrays of the particle geometry.\<close>

record geometry =
  positions :: "real list"
  colors :: "real list"
  sizes :: "real list"
  velocities :: "real list"
  phases :: "real list"

text \<open>
  The fields of \<open>ParticleSystem\<close>. \<open>particles\<close> and \<open>particleGeometry\<close> are assigned
  together by \<open>createParticles\<close> and nowhere else, so one optional field stands for both.
  Two fields belong to the host rather than to the class: \<open>nextRequestId\<close> is the id the
  next \<open>requestAnimationFrame\<close> returns, and \<open>geometriesCreated\<close> counts the
  \<open>BufferGeometry\<close> objects constructed so far.
\<close>

record particle_system =
  isPlaying :: bool
  animationId :: "nat option"
  time :: real
  speed :: real
  rotationSpeed :: real
  particleCount :: nat
  particleSize :: real
  particleShape :: string
  baseColor :: color
  accentColor :: color
  colorTransition :: bool
  mouse_x :: real
  mouse_y :: real
  mouseInfluence :: real
  mouseInteraction :: bool
  currentPreset :: string
  particleGeometry :: "geometry option"
  particleMaterial :: "material option"
  cameraPosition :: vector3
  nextRequestId :: nat
  geometriesCreated :: nat

subsection \<open>Creating the population\<close>

text \<open>
  \<open>createParticles\<close> calls \<open>Math.random()\<close> nine times for each particle. The results of
  one run are the sequence \<open>rnd\<close>: \<open>rnd k\<close> is what the \<open>k\<close>-th call returned, so particle
  \<open>i\<close> uses \<open>rnd (9 * i)\<close> to \<open>rnd (9 * i + 8)\<close>, in the order of the source.
\<close>

definition createParticle :: "(nat \<Rightarrow> real) \<Rightarrow> real \<Rightarrow> color \<Rightarrow> color \<Rightarrow> nat \<Rightarrow> geometry \<Rightarrow> geometry" where
  "createParticle rnd sz base accent i g =
     (let i3 = i * 3;
          radius = rnd (9 * i) * 80 + 20;
          theta = rnd (9 * i + 1) * pi * 2;
          phi = arccos (2 * rnd (9 * i + 2) - 1);
          c = lerpColors base accent (rnd (9 * i + 6))
      in g\<lparr>positions := (positions g)
                [i3 := radius * sin phi * cos theta,
                 i3 + 1 := radius * sin phi * sin theta,
                 i3 + 2 := radius * cos phi],
            velocities := (velocities g)
                [i3 := (rnd (9 * i + 3) - 0.5) * 0.02,
                 i3 + 1 := (rnd (9 * i + 4) - 0.5) * 0.02,
                 i3 + 2 := (rnd (9 * i + 5) - 0.5) * 0.02],
            colors := (colors g)[i3 := col_r c, i3 + 1 := col_g c, i3 + 2 := col_b c],
            sizes := (sizes g)[i := rnd (9 * i + 7) * sz + 0.5],
            phases := (phases g)[i := rnd (9 * i + 8) * pi * 2]\<rparr>)"

definition createGeometry :: "(nat \<Rightarrow> real) \<Rightarrow> nat \<Rightarrow> real \<Rightarrow> color \<Rightarrow> color \<Rightarrow> geometry" where
  "createGeometry rnd n sz base accent =
     fold (createParticle rnd sz base accent) [0..<n]
       \<lparr>positions = replicate (n * 3) 0,
        colors = replicate (n * 3) 0,
        sizes = replicate n 0,
        velocities = replicate (n * 3) 0,
        phases = replicate n 0\<rparr>"

definition createParticles :: "(nat \<Rightarrow> real) \<Rightarrow> particle_system \<Rightarrow> particle_system" where
  "createParticles rnd s =
     s\<lparr>particleGeometry :=
          Some (createGeometry rnd (particleCount s) (particleSize s) (baseColor s) (accentColor s)),
       particleMaterial :=
          Some (newMaterial (baseColor s) (accentColor s) (particleSize s) (particleShape s)),
       geometriesCreated := geometriesCreated s + 1\<rparr>"

text \<open>
  The constructor sets the fields and runs \<open>init\<close>; this is the system it leaves when
  \<open>init\<close> completes (the canvas element exists). The two colours are
  \<open>new THREE.Color(0xff6b6b)\<close> and \<open>new THREE.Color(0x4ecdc4)\<close>; they are parameters here.
\<close>

definition ParticleSystem :: "color \<Rightarrow> color \<Rightarrow> (nat \<Rightarrow> real) \<Rightarrow> particle_system" where
  "ParticleSystem base accent rnd =
     createParticles rnd
       \<lparr>isPlaying = True, animationId = None, time = 0, speed = 1, rotationSpeed = 0.5,
        particleCount = 5000, particleSize = 2, particleShape = ''circle'',
        baseColor = base, accentColor = accent, colorTransition = True,
        mouse_x = 0, mouse_y = 0, mouseInfluence = 0.1, mouseInteraction = True,
        currentPreset = ''default'', particleGeometry = None, particleMaterial = None,
        cameraPosition = Vector3 0 0 100, nextRequestId = 1, geometriesCreated = 0\<rparr>"

subsection \<open>One frame\<close>

text \<open>
  The body of the loop in \<open>updateParticles\<close> for particle \<open>i\<close>. A write past the end of
  a typed array is dropped, as \<open>xs[i := v]\<close> is.
\<close>

definition updateParticle :: "particle_system \<Rightarrow> nat \<Rightarrow> geometry \<Rightarrow> geometry" where
  "updateParticle s i g =
     (let i3 = i * 3;
          position = Vector3 (positions g ! i3) (positions g ! (i3 + 1)) (positions g ! (i3 + 2));
          position = applyPresetAnimation (currentPreset s) position i (time s);
          mouseInfluenceVector = Vector3 (mouse_x s * 10) (mouse_y s * 10) 0;
          position =
            (if mouseInteraction s then
               (let distance = distanceTo position mouseInfluenceVector;
                    influence = max 0 (1 - distance / 50);
                    direction = normalize (sub_v3 position mouseInfluenceVector)
                in add_v3 position (multiplyScalar direction (influence * mouseInfluence s)))
             else position);
          g = g\<lparr>positions := (positions g)
                    [i3 := vec_x position + sin (time s + phases g ! i) * 0.5,
                     i3 + 1 := vec_y position + cos (time s + phases g ! i) * 0.5,
                     i3 + 2 := vec_z position + sin (time s * 0.5 + phases g ! i) * 0.3]\<rparr>
      in if colorTransition s then
           (let factor = (sin (time s * 0.5 + phases g ! i) + 1) / 2;
                c = lerpColors (baseColor s) (accentColor s) factor
            in g\<lparr>colors := (colors g)[i3 := col_r c, i3 + 1 := col_g c, i3 + 2 := col_b c]\<rparr>)
         else g)"

definition updateParticles :: "particle_system \<Rightarrow> particle_system" where
  "updateParticles s =
     (case particleGeometry s of
        None \<Rightarrow> s
      | Some g \<Rightarrow>
          s\<lparr>particleGeometry := Some (fold (updateParticle s) [0..<particleCount s] g),
            particleMaterial := map_option (updateTime (time s)) (particleMaterial s)\<rparr>)"

definition updateCamera :: "particle_system \<Rightarrow> particle_system" where
  "updateCamera s =
     (if 0 < rotationSpeed s then
        s\<lparr>cameraPosition :=
             Vector3 (cos (time s * rotationSpeed s * 0.1) * 100)
                     (vec_y (cameraPosition s))
                     (sin (time s * rotationSpeed s * 0.1) * 100)\<rparr>
      else s)"

text \<open>
  \<open>animate\<close> is the frame callback: it returns at once when the system is not playing,
  otherwise it requests the next frame, advances the time and updates particles and camera.
\<close>

definition animate :: "particle_system \<Rightarrow> particle_system" where
  "animate s =
     (if \<not> isPlaying s then s
      else
        (let s = s\<lparr>animationId := Some (nextRequestId s), nextRequestId := nextRequestId s + 1\<rparr>;
             s = s\<lparr>time := time s + 0.016 * speed s\<rparr>;
             s = updateParticles s
         in updateCamera s))"

subsection \<open>Playback and configuration\<close>

definition start :: "particle_system \<Rightarrow> particle_system" where
  "start s = animate (s\<lparr>isPlaying := True\<rparr>)"

text \<open>\<open>if (this.animationId)\<close> is false for a missing id and for the id zero.\<close>

definition pause :: "particle_system \<Rightarrow> particle_system" where
  "pause s =
     (let s = s\<lparr>isPlaying := False\<rparr>
      in case animationId s of
           None \<Rightarrow> s
         | Some k \<Rightarrow> (if k \<noteq> 0 then s\<lparr>animationId := None\<rparr> else s))"

definition resume :: "particle_system \<Rightarrow> particle_system" where
  "resume s = (if \<not> isPlaying s then animate (s\<lparr>isPlaying := True\<rparr>) else s)"

definition reset :: "(nat \<Rightarrow> real) \<Rightarrow> particle_system \<Rightarrow> particle_system" where
  "reset rnd s = createParticles rnd (s\<lparr>time := 0\<rparr>)"

definition setPreset :: "string \<Rightarrow> particle_system \<Rightarrow> particle_system" where
  "setPreset presetName s = s\<lparr>currentPreset := presetName\<rparr>"

text \<open>
  The property bag of \<open>updateProperties\<close>: any subset of the ten configuration keys.
  \<open>None\<close> is a key that is absent.
\<close>

record properties =
  particleCount_opt :: "nat option"
  particleSize_opt :: "real option"
  particleShape_opt :: "string option"
  baseColor_opt :: "color option"
  accentColor_opt :: "color option"
  speed_opt :: "real option"
  rotationSpeed_opt :: "real option"
  colorTransition_opt :: "bool option"
  mouseInteraction_opt :: "bool option"
  mouseInfluence_opt :: "real option"

definition needsRecreate :: "properties \<Rightarrow> particle_system \<Rightarrow> bool" where
  "needsRecreate p s =
     ((particleCount_opt p \<noteq> None \<and> particleCount_opt p \<noteq> Some (particleCount s)) \<or>
      (particleShape_opt p \<noteq> None \<and> particleShape_opt p \<noteq> Some (particleShape s)))"

text \<open>\<open>Object.assign(this, properties)\<close>.\<close>

definition assign :: "properties \<Rightarrow> particle_system \<Rightarrow> particle_system" where
  "assign p s =
     s\<lparr>particleCount := (case particleCount_opt p of Some v \<Rightarrow> v | None \<Rightarrow> particleCount s),
       particleSize := (case particleSize_opt p of Some v \<Rightarrow> v | None \<Rightarrow> particleSize s),
       particleShape := (case particleShape_opt p of Some v \<Rightarrow> v | None \<Rightarrow> particleShape s),
       baseColor := (case baseColor_opt p of Some v \<Rightarrow> v | None \<Rightarrow> baseColor s),
       accentColor := (case accentColor_opt p of Some v \<Rightarrow> v | None \<Rightarrow> accentColor s),
       speed := (case speed_opt p of Some v \<Rightarrow> v | None \<Rightarrow> speed s),
       rotationSpeed := (case rotationSpeed_opt p of Some v \<Rightarrow> v | None \<Rightarrow> rotationSpeed s),
       colorTransition := (case colorTransition_opt p of Some v \<Rightarrow> v | None \<Rightarrow> colorTransition s),
       mouseInteraction := (case mouseInteraction_opt p of Some v \<Rightarrow> v | None \<Rightarrow> mouseInteraction s),
       mouseInfluence := (case mouseInfluence_opt p of Some v \<Rightarrow> v | None \<Rightarrow> mouseInfluence s)\<rparr>"

definition updateProperties :: "(nat \<Rightarrow> real) \<Rightarrow> properties \<Rightarrow> particle_system \<Rightarrow> particle_system" where
  "updateProperties rnd p s =
     (let recreate = needsRecreate p s;
          s = assign p s
      in if recreate then createParticles rnd s
         else s\<lparr>particleMaterial :=
                  map_option (material_updateProperties (baseColor s) (accentColor s) (particleSize s))
                    (particleMaterial s)\<rparr>)"

text \<open>The empty property bag \<open>{}\<close>.\<close>

definition emptyProperties :: properties where
  "emptyProperties =
     \<lparr>particleCount_opt = None, particleSize_opt = None, particleShape_opt = None,
      baseColor_opt = None, accentColor_opt = None, speed_opt = None,
      rotationSpeed_opt = None, colorTransition_opt = None, mouseInteraction_opt = None,
      mouseInfluence_opt = None\<rparr>"

subsection \<open>Sequences of calls\<close>

text \<open>
  The calls a host or a user interface makes on a running system, and the state after a
  sequence of them. \<open>Animate\<close> is one invocation of the frame callback.
\<close>

datatype command =
    Animate
  | Start
  | Pause
  | Resume
  | Reset "nat \<Rightarrow> real"
  | SetPreset string
  | UpdateProperties "nat \<Rightarrow> real" properties

fun step :: "command \<Rightarrow> particle_system \<Rightarrow> particle_system" where
  "step Animate s = animate s"
| "step Start s = start s"
| "step Pause s = pause s"
| "step Resume s = resume s"
| "step (Reset rnd) s = reset rnd s"
| "step (SetPreset presetName) s = setPreset presetName s"
| "step (UpdateProperties rnd p) s = updateProperties rnd p s"

fun run :: "command list \<Rightarrow> particle_system \<Rightarrow> particle_system" where
  "run [] s = s"
| "run (c # cs) s = run cs (step c s)"

text \<open>
  The calls that recreate the population: \<open>reset\<close>, and a property update that brings a
  particle count or a shape name different from the current one.
\<close>

fun recreates :: "command \<Rightarrow> particle_system \<Rightarrow> bool" where
  "recreates (Reset rnd) s = True"
| "recreates (UpdateProperties rnd p) s =
     ((case particleCount_opt p of None \<Rightarrow> False | Some n \<Rightarrow> n \<noteq> particleCount s) \<or>
      (case particleShape_opt p of None \<Rightarrow> False | Some sh \<Rightarrow> sh \<noteq> particleShape s))"
| "recreates c s = False"

fun no_recreation :: "command list \<Rightarrow> particle_system \<Rightarrow> bool" where
  "no_recreation [] s = True"
| "no_recreation (c # cs) s = (\<not> recreates c s \<and> no_recreation cs (step c s))"

text \<open>The position of particle \<open>i\<close> as the frame update reads it from the array.\<close>

definition position_at :: "geometry \<Rightarrow> nat \<Rightarrow> vector3" where
  "position_at g i =
     Vector3 (positions g ! (i * 3)) (positions g ! (i * 3 + 1)) (positions g ! (i * 3 + 2))"

subsection \<open>Example systems\<close>

text \<open>
  Concrete systems for the examples below: a random source that always returns one half
  and one that always returns one quarter, the system the constructor builds from the
  first, and the same system switched to the explosion preset.
\<close>

definition exampleRandom :: "nat \<Rightarrow> real" where
  "exampleRandom k = 1 / 2"

definition quarterRandom :: "nat \<Rightarrow> real" where
  "quarterRandom k = 1 / 4"

definition exampleSystem :: particle_system where
  "exampleSystem = ParticleSystem (Color 1 0 0) (Color 0 1 0) exampleRandom"

definition explosionSystem :: particle_system where
  "explosionSystem = setPreset ''explosion'' exampleSystem"

section \<open>Presets: radius, height and the explosion factor\<close>

lemma rotated_radius:
  assumes "0 \<le> r"
  shows "sqrt ((r * cos a) * (r * cos a) + (r * sin a) * (r * sin a)) = r"
proof -
  have "(r * cos a) * (r * cos a) + (r * sin a) * (r * sin a) =
        (r * r) * (cos a * cos a + sin a * sin a)"
    by (simp only: distrib_left mult_ac)
  also have "\<dots> = r * r" by simp
  finally show ?thesis using assms by simp
qed

text \<open>
  C2. One application of the spiral preset leaves the height \<open>y\<close> as it is and keeps the
  radius in the \<open>(x, z)\<close> plane: the radius recomputed from the new position equals the
  radius of the old one, for every position, index and time. In exact arithmetic the two
  radii are equal.
\<close>

theorem spiral_preserves_height_and_radius:
  "vec_y (applySpiralAnimation p i t) = vec_y p \<and>
   sqrt (vec_x (applySpiralAnimation p i t) * vec_x (applySpiralAnimation p i t) +
         vec_z (applySpiralAnimation p i t) * vec_z (applySpiralAnimation p i t)) =
   sqrt (vec_x p * vec_x p + vec_z p * vec_z p)"
proof -
  have "0 \<le> sqrt (vec_x p * vec_x p + vec_z p * vec_z p)" by simp
  then show ?thesis
    by (simp add: applySpiralAnimation_def Let_def rotated_radius)
qed

text \<open>The galaxy preset divides by \<open>distance * 0.01 + 1\<close>, which is at least one.\<close>

lemma galaxy_divisor_ge_one:
  "1 \<le> sqrt (vec_x p * vec_x p + vec_z p * vec_z p) * 0.01 + 1"
  by simp

lemma galaxy_preserves_radius:
  "sqrt (vec_x (applyGalaxyAnimation p i t) * vec_x (applyGalaxyAnimation p i t) +
         vec_z (applyGalaxyAnimation p i t) * vec_z (applyGalaxyAnimation p i t)) =
   sqrt (vec_x p * vec_x p + vec_z p * vec_z p)"
proof -
  have "0 \<le> sqrt (vec_x p * vec_x p + vec_z p * vec_z p)" by simp
  then show ?thesis
    by (simp add: applyGalaxyAnimation_def Let_def rotated_radius)
qed

lemma explosionFactor_range: "0 \<le> explosionFactor t \<and> explosionFactor t \<le> 1"
proof -
  have "- 1 \<le> sin (t * 0.5)" and "sin (t * 0.5) \<le> 1" by simp_all
  then show ?thesis unfolding explosionFactor_def by linarith
qed

lemma length_multiplyScalar: "length_v3 (multiplyScalar v k) = \<bar>k\<bar> * length_v3 v"
proof -
  have "vec_x v * k * (vec_x v * k) + vec_y v * k * (vec_y v * k) + vec_z v * k * (vec_z v * k) =
        k\<^sup>2 * (vec_x v * vec_x v + vec_y v * vec_y v + vec_z v * vec_z v)"
    by (simp add: power2_eq_square algebra_simps)
  then show ?thesis
    by (simp add: length_v3_def multiplyScalar_def real_sqrt_mult)
qed

lemma add_scaled_direction:
  "add_v3 v (multiplyScalar (divideScalar v l) c) = multiplyScalar v (1 + c / l)"
  by (cases v) (simp add: add_v3_def multiplyScalar_def divideScalar_def algebra_simps)

lemma length_zero_vector:
  assumes "length_v3 p = 0"
  shows "p = Vector3 0 0 0"
proof -
  have sq: "0 \<le> vec_x p * vec_x p" "0 \<le> vec_y p * vec_y p" "0 \<le> vec_z p * vec_z p"
    by simp_all
  have "vec_x p * vec_x p + vec_y p * vec_y p + vec_z p * vec_z p = 0"
    using assms by (simp add: length_v3_def)
  with sq have "vec_x p * vec_x p = 0" "vec_y p * vec_y p = 0" "vec_z p * vec_z p = 0"
    by linarith+
  then show ?thesis by (cases p) simp
qed

lemma explosion_length:
  "length_v3 (applyExplosionAnimation p i t) =
     (if length_v3 p = 0 then 0 else length_v3 p + 2 * explosionFactor t)"
proof (cases "length_v3 p = 0")
  case True
  then have "p = Vector3 0 0 0" by (rule length_zero_vector)
  then have "applyExplosionAnimation p i t = Vector3 0 0 0"
    by (simp add: applyExplosionAnimation_def normalize_def divideScalar_def multiplyScalar_def
        add_v3_def length_v3_def)
  then show ?thesis using True by (simp add: length_v3_def)
next
  case False
  then have pos: "0 < length_v3 p" by (simp add: length_v3_def less_le)
  have f: "0 \<le> explosionFactor t" using explosionFactor_range by simp
  have "applyExplosionAnimation p i t = multiplyScalar p (1 + explosionFactor t * 2 / length_v3 p)"
    using False by (simp add: applyExplosionAnimation_def normalize_def add_scaled_direction)
  then have "length_v3 (applyExplosionAnimation p i t) =
             \<bar>1 + explosionFactor t * 2 / length_v3 p\<bar> * length_v3 p"
    by (simp add: length_multiplyScalar)
  also have "\<dots> = (1 + explosionFactor t * 2 / length_v3 p) * length_v3 p"
    using pos f by (simp add: abs_of_nonneg)
  also have "\<dots> = length_v3 p + 2 * explosionFactor t"
    using False by (simp add: field_simps)
  finally show ?thesis using False by simp
qed

lemma unknown_preset_is_identity:
  assumes "name \<notin> {''galaxy'', ''nebula'', ''explosion'', ''wave'', ''spiral'', ''aurora''}"
  shows "applyPresetAnimation name p i t = p"
  using assms by (simp add: applyPresetAnimation_def)

section \<open>Shape names\<close>

lemma getShapeType_known:
  "getShapeType ''circle'' = JNumber 0"
  "getShapeType ''square'' = JNumber 1"
  "getShapeType ''star'' = JNumber 2"
  "getShapeType ''heart'' = JNumber 3"
  by (simp_all add: getShapeType_def js_or_def js_get_def shapeMap_def truthy_def)

lemma getShapeName_known:
  "getShapeName (JNumber 0) = JString ''circle''"
  "getShapeName (JNumber 1) = JString ''square''"
  "getShapeName (JNumber 2) = JString ''star''"
  "getShapeName (JNumber 3) = JString ''heart''"
  by (simp_all add: getShapeName_def js_or_def js_get_def typeMap_def truthy_def
        to_property_key_def)

lemma shape_name_round_trip:
  assumes "name = ''circle'' \<or> name = ''square'' \<or> name = ''star'' \<or> name = ''heart''"
  shows "getShapeName (getShapeType name) = JString name"
  using assms by (elim disjE) (simp_all add: getShapeType_known getShapeName_known)

text \<open>
  A name that is neither a key of \<open>shapeMap\<close> nor a member inherited from
  \<open>Object.prototype\<close> has type 0.
\<close>

lemma getShapeType_absent:
  assumes "map_of shapeMap name = None" and "map_of object_prototype name = None"
  shows "getShapeType name = JNumber 0"
  using assms by (simp add: getShapeType_def js_or_def js_get_def truthy_def)

text \<open>
  C9. A preset name outside the seven known names gives the default preset's identity
  motion (lemma \<open>unknown_preset_is_identity\<close>), and a shape name outside circle, square,
  star and heart should map to shape type 0. For the name \<open>constructor\<close>, which is none
  of the four, \<open>getShapeType\<close> returns the function that every object literal inherits
  under that name, not 0.
\<close>

theorem getShapeType_constructor:
  "getShapeType ''constructor'' = JFunction ''Object'' \<and>
   getShapeType ''constructor'' \<noteq> JNumber 0"
  by (simp add: getShapeType_def js_or_def js_get_def shapeMap_def object_prototype_def
        truthy_def)

text \<open>
  C10. Each of the four shape names survives the round trip through \<open>getShapeType\<close> and
  \<open>getShapeName\<close> (lemma \<open>shape_name_round_trip\<close>), and an unknown name should map to type
  0 and from there back to circle. The unknown name \<open>toString\<close> maps to an inherited
  function instead of 0; \<open>getShapeName\<close> still turns that value into circle.
\<close>

theorem getShapeType_toString:
  "getShapeType ''toString'' = JFunction ''toString'' \<and>
   getShapeType ''toString'' \<noteq> JNumber 0 \<and>
   getShapeName (getShapeType ''toString'') = JString ''circle''"
  by (simp add: getShapeType_def getShapeName_def js_or_def js_get_def shapeMap_def typeMap_def
        object_prototype_def truthy_def to_property_key_def)

section \<open>What one frame changes\<close>

subsection \<open>The loop over the particles\<close>

lemma updateParticle_fixed:
  "phases (updateParticle s i g) = phases g"
  "velocities (updateParticle s i g) = velocities g"
  "sizes (updateParticle s i g) = sizes g"
  "length (positions (updateParticle s i g)) = length (positions g)"
  by (simp_all add: updateParticle_def Let_def)

lemma updateParticle_colors:
  "\<not> colorTransition s \<Longrightarrow> colors (updateParticle s i g) = colors g"
  by (simp add: updateParticle_def Let_def)

lemma fold_updateParticle_fixed:
  "phases (fold (updateParticle s) js g) = phases g"
  "velocities (fold (updateParticle s) js g) = velocities g"
  "sizes (fold (updateParticle s) js g) = sizes g"
  "length (positions (fold (updateParticle s) js g)) = length (positions g)"
  by (induction js arbitrary: g; simp add: updateParticle_fixed)+

lemma fold_updateParticle_colors:
  "\<not> colorTransition s \<Longrightarrow> colors (fold (updateParticle s) js g) = colors g"
  by (induction js arbitrary: g) (simp_all add: updateParticle_colors)

text \<open>The update of particle \<open>j\<close> writes the three position entries of \<open>j\<close> only.\<close>

lemma updateParticle_positions_other:
  assumes "i \<noteq> j" and "k < 3"
  shows "positions (updateParticle s j g) ! (i * 3 + k) = positions g ! (i * 3 + k)"
proof -
  have "i * 3 + k \<noteq> j * 3" "i * 3 + k \<noteq> j * 3 + 1" "i * 3 + k \<noteq> j * 3 + 2"
    using assms by presburger+
  then show ?thesis
    by (simp add: updateParticle_def Let_def)
qed

lemma fold_updateParticle_positions_other:
  "i \<notin> set js \<Longrightarrow> k < 3 \<Longrightarrow>
   positions (fold (updateParticle s) js g) ! (i * 3 + k) = positions g ! (i * 3 + k)"
  by (induction js arbitrary: g) (simp_all add: updateParticle_positions_other)

lemma position_at_other:
  "i \<notin> set js \<Longrightarrow> position_at (fold (updateParticle s) js g) i = position_at g i"
  using fold_updateParticle_positions_other [of i js 0 s g]
        fold_updateParticle_positions_other [of i js 1 s g]
        fold_updateParticle_positions_other [of i js 2 s g]
  by (simp add: position_at_def)

text \<open>What it writes depends on the particle's own position and phase only.\<close>

lemma updateParticle_local:
  assumes "length (positions g) = length (positions g')"
    and "i * 3 + 2 < length (positions g)"
    and "position_at g i = position_at g' i"
    and "phases g = phases g'"
  shows "position_at (updateParticle s i g) i = position_at (updateParticle s i g') i"
proof -
  have e: "positions g ! (i * 3) = positions g' ! (i * 3)"
    "positions g ! (i * 3 + 1) = positions g' ! (i * 3 + 1)"
    "positions g ! (i * 3 + 2) = positions g' ! (i * 3 + 2)"
    using assms(3) by (simp_all add: position_at_def)
  show ?thesis
    using assms(1,2,4) e by (simp add: position_at_def updateParticle_def Let_def)
qed

lemma fold_updateParticle_position_at:
  assumes "i < n" and "n * 3 \<le> length (positions g)"
  shows "position_at (fold (updateParticle s) [0..<n] g) i = position_at (updateParticle s i g) i"
proof -
  let ?g1 = "fold (updateParticle s) [0..<i] g"
  have "[0..<i + (n - i)] = [0..<i] @ [i..<i + (n - i)]"
    by (rule upt_add_eq_append) simp
  then have split: "[0..<n] = [0..<i] @ i # [Suc i..<n]"
    using assms(1) by (simp add: upt_conv_Cons)
  have "position_at (fold (updateParticle s) [0..<n] g) i =
        position_at (fold (updateParticle s) [Suc i..<n] (updateParticle s i ?g1)) i"
    by (simp add: split)
  also have "\<dots> = position_at (updateParticle s i ?g1) i"
    by (simp add: position_at_other)
  also have "\<dots> = position_at (updateParticle s i g) i"
  proof (rule updateParticle_local)
    show "length (positions ?g1) = length (positions g)"
      by (simp add: fold_updateParticle_fixed)
    show "i * 3 + 2 < length (positions ?g1)"
      using assms by (simp add: fold_updateParticle_fixed)
    show "position_at ?g1 i = position_at g i"
      by (simp add: position_at_other)
    show "phases ?g1 = phases g"
      by (simp add: fold_updateParticle_fixed)
  qed
  finally show ?thesis .
qed

lemma updateParticle_explosion:
  assumes "currentPreset s = ''explosion''" and "i * 3 + 2 < length (positions g)"
  shows "position_at (updateParticle s i g) i =
         (let q = applyExplosionAnimation (position_at g i) i (time s);
              m = Vector3 (mouse_x s * 10) (mouse_y s * 10) 0;
              q' = (if mouseInteraction s
                    then add_v3 q (multiplyScalar (normalize (sub_v3 q m))
                                     (max 0 (1 - distanceTo q m / 50) * mouseInfluence s))
                    else q)
          in add_v3 q' (Vector3 (sin (time s + phases g ! i) * 0.5)
                                (cos (time s + phases g ! i) * 0.5)
                                (sin (time s * 0.5 + phases g ! i) * 0.3)))"
  using assms
  by (simp add: position_at_def updateParticle_def Let_def applyPresetAnimation_def add_v3_def)

subsection \<open>The frame callback\<close>

lemma updateParticles_config:
  "isPlaying (updateParticles s) = isPlaying s"
  "time (updateParticles s) = time s"
  "speed (updateParticles s) = speed s"
  "colorTransition (updateParticles s) = colorTransition s"
  "rotationSpeed (updateParticles s) = rotationSpeed s"
  by (simp_all add: updateParticles_def split: option.split)

lemma updateCamera_config:
  "isPlaying (updateCamera s) = isPlaying s"
  "time (updateCamera s) = time s"
  "speed (updateCamera s) = speed s"
  "colorTransition (updateCamera s) = colorTransition s"
  "particleGeometry (updateCamera s) = particleGeometry s"
  by (simp_all add: updateCamera_def)

lemma animate_config:
  "isPlaying (animate s) = isPlaying s"
  "speed (animate s) = speed s"
  "colorTransition (animate s) = colorTransition s"
  by (simp_all add: animate_def Let_def updateCamera_config updateParticles_config)

lemma animate_time:
  "time (animate s) = (if isPlaying s then time s + 0.016 * speed s else time s)"
  by (simp add: animate_def Let_def updateCamera_config updateParticles_config)

lemma animate_paused: "\<not> isPlaying s \<Longrightarrow> animate s = s"
  by (simp add: animate_def)

lemma animate_animationId: "isPlaying s \<Longrightarrow> animate (s\<lparr>animationId := a\<rparr>) = animate s"
  by (simp add: animate_def Let_def)

lemma animate_geometry:
  assumes "isPlaying s" and "particleGeometry s = Some g"
  shows "particleGeometry (animate s) =
         Some (fold (updateParticle
                 (s\<lparr>animationId := Some (nextRequestId s), nextRequestId := nextRequestId s + 1,
                    time := time s + 0.016 * speed s\<rparr>))
               [0..<particleCount s] g)"
  using assms by (simp add: animate_def Let_def updateCamera_config updateParticles_def)

lemma animate_geometry_fixed:
  "map_option phases (particleGeometry (animate s)) = map_option phases (particleGeometry s)"
  "map_option velocities (particleGeometry (animate s)) = map_option velocities (particleGeometry s)"
  "map_option sizes (particleGeometry (animate s)) = map_option sizes (particleGeometry s)"
  by (simp_all add: animate_def Let_def updateCamera_config updateParticles_def
        fold_updateParticle_fixed split: option.split)

lemma animate_colors:
  "\<not> colorTransition s \<Longrightarrow>
   map_option colors (particleGeometry (animate s)) = map_option colors (particleGeometry s)"
  by (simp add: animate_def Let_def updateCamera_config updateParticles_def
        fold_updateParticle_colors split: option.split)

lemma funpow_animate_config:
  "isPlaying ((animate ^^ n) s) = isPlaying s"
  "speed ((animate ^^ n) s) = speed s"
  "colorTransition ((animate ^^ n) s) = colorTransition s"
  by (induction n) (simp_all add: animate_config)

lemma funpow_animate_time:
  "isPlaying s \<Longrightarrow> time ((animate ^^ n) s) = time s + real n * (0.016 * speed s)"
  by (induction n) (simp_all add: animate_time funpow_animate_config algebra_simps)

lemma funpow_animate_paused: "\<not> isPlaying s \<Longrightarrow> (animate ^^ n) s = s"
  by (induction n) (simp_all add: animate_paused)

lemma funpow_animate_phases:
  "map_option phases (particleGeometry ((animate ^^ n) s)) = map_option phases (particleGeometry s)"
  by (induction n) (simp_all add: animate_geometry_fixed)

lemma funpow_animate_colors:
  "\<not> colorTransition s \<Longrightarrow>
   map_option colors (particleGeometry ((animate ^^ n) s)) = map_option colors (particleGeometry s)"
  by (induction n) (simp_all add: animate_colors funpow_animate_config)

section \<open>Creation, playback and configuration\<close>

lemma createParticle_phases:
  "phases (createParticle rnd sz b a i g) = (phases g)[i := rnd (9 * i + 8) * pi * 2]"
  by (simp add: createParticle_def Let_def)

lemma fold_createParticle_phases:
  "k \<le> length (phases g) \<Longrightarrow>
   phases (fold (createParticle rnd sz b a) [0..<k] g) =
     map (\<lambda>i. rnd (9 * i + 8) * pi * 2) [0..<k] @ drop k (phases g)"
proof (induction k)
  case 0
  then show ?case by simp
next
  case (Suc k)
  then have k: "k < length (phases g)" by simp
  let ?f = "\<lambda>i. rnd (9 * i + 8) * pi * 2"
  have "phases (fold (createParticle rnd sz b a) [0..<Suc k] g) =
          (map ?f [0..<k] @ drop k (phases g))[k := ?f k]"
    using Suc by (simp add: createParticle_phases)
  also have "\<dots> = map ?f [0..<k] @ (drop k (phases g))[0 := ?f k]"
    by (simp add: list_update_append)
  also have "drop k (phases g) = phases g ! k # drop (Suc k) (phases g)"
    using k by (simp add: Cons_nth_drop_Suc)
  finally show ?case by simp
qed

lemma createGeometry_phases:
  "phases (createGeometry rnd n sz b a) = map (\<lambda>i. rnd (9 * i + 8) * pi * 2) [0..<n]"
  by (simp add: createGeometry_def fold_createParticle_phases)

lemma fold_createParticle_length:
  "length (positions (fold (createParticle rnd sz b a) js g)) = length (positions g)"
  by (induction js arbitrary: g) (simp_all add: createParticle_def Let_def)

lemma createGeometry_length: "length (positions (createGeometry rnd n sz b a)) = n * 3"
  by (simp add: createGeometry_def fold_createParticle_length)

lemma ParticleSystem_fields:
  "isPlaying (ParticleSystem b a rnd) = True"
  "time (ParticleSystem b a rnd) = 0"
  "speed (ParticleSystem b a rnd) = 1"
  "particleCount (ParticleSystem b a rnd) = 5000"
  "particleShape (ParticleSystem b a rnd) = ''circle''"
  "colorTransition (ParticleSystem b a rnd) = True"
  "mouseInteraction (ParticleSystem b a rnd) = True"
  "particleGeometry (ParticleSystem b a rnd) = Some (createGeometry rnd 5000 2 b a)"
  by (simp_all add: ParticleSystem_def createParticles_def)

lemma pause_fields:
  "isPlaying (pause s) = False"
  "time (pause s) = time s"
  "speed (pause s) = speed s"
  "particleGeometry (pause s) = particleGeometry s"
  by (simp_all add: pause_def Let_def split: option.split)

lemma start_fields:
  "isPlaying (start s)"
  "speed (start s) = speed s"
  "time (start s) = time s + 0.016 * speed s"
  by (simp_all add: start_def animate_config animate_time)

lemma setPreset_fields:
  "isPlaying (setPreset name s) = isPlaying s"
  "time (setPreset name s) = time s"
  "speed (setPreset name s) = speed s"
  "particleCount (setPreset name s) = particleCount s"
  "mouseInteraction (setPreset name s) = mouseInteraction s"
  "particleGeometry (setPreset name s) = particleGeometry s"
  "currentPreset (setPreset name s) = name"
  by (simp_all add: setPreset_def)

lemma updateProperties_fields:
  "isPlaying (updateProperties rnd p s) = isPlaying s"
  "time (updateProperties rnd p s) = time s"
  "speed (updateProperties rnd p s) = (case speed_opt p of Some v \<Rightarrow> v | None \<Rightarrow> speed s)"
  "particleCount (updateProperties rnd p s) =
     (case particleCount_opt p of Some v \<Rightarrow> v | None \<Rightarrow> particleCount s)"
  "particleShape (updateProperties rnd p s) =
     (case particleShape_opt p of Some v \<Rightarrow> v | None \<Rightarrow> particleShape s)"
  "colorTransition (updateProperties rnd p s) =
     (case colorTransition_opt p of Some v \<Rightarrow> v | None \<Rightarrow> colorTransition s)"
  "mouseInteraction (updateProperties rnd p s) =
     (case mouseInteraction_opt p of Some v \<Rightarrow> v | None \<Rightarrow> mouseInteraction s)"
  by (simp_all add: updateProperties_def assign_def createParticles_def Let_def)

lemma needsRecreate_iff:
  "needsRecreate p s =
     ((\<exists>n. particleCount_opt p = Some n \<and> n \<noteq> particleCount s) \<or>
      (\<exists>sh. particleShape_opt p = Some sh \<and> sh \<noteq> particleShape s))"
  by (auto simp add: needsRecreate_def)

lemma recreates_UpdateProperties: "recreates (UpdateProperties rnd p) s = needsRecreate p s"
  by (auto simp add: needsRecreate_def split: option.splits)

lemma updateProperties_keep:
  "\<not> needsRecreate p s \<Longrightarrow> particleGeometry (updateProperties rnd p s) = particleGeometry s"
  "\<not> needsRecreate p s \<Longrightarrow> geometriesCreated (updateProperties rnd p s) = geometriesCreated s"
  by (simp_all add: updateProperties_def assign_def Let_def)

lemma updateProperties_recreate:
  "needsRecreate p s \<Longrightarrow> geometriesCreated (updateProperties rnd p s) = geometriesCreated s + 1"
  "needsRecreate p s \<Longrightarrow> particleGeometry (updateProperties rnd p s) =
     Some (createGeometry rnd (particleCount (updateProperties rnd p s))
             (particleSize (updateProperties rnd p s)) (baseColor (updateProperties rnd p s))
             (accentColor (updateProperties rnd p s)))"
  by (simp_all add: updateProperties_def assign_def createParticles_def Let_def)

lemma pause_playing:
  assumes "isPlaying s"
  shows "\<exists>a. (pause s)\<lparr>isPlaying := True\<rparr> = s\<lparr>animationId := a\<rparr>"
proof (cases "animationId s")
  case None
  then have "(pause s)\<lparr>isPlaying := True\<rparr> = s\<lparr>animationId := None\<rparr>"
    using assms by (simp add: pause_def)
  then show ?thesis by blast
next
  case (Some k)
  then have "(pause s)\<lparr>isPlaying := True\<rparr> =
             s\<lparr>animationId := (if k \<noteq> 0 then None else Some k)\<rparr>"
    using assms by (simp add: pause_def)
  then show ?thesis by blast
qed

lemma resume_pause:
  assumes "isPlaying s"
  shows "resume (pause s) = animate s"
proof -
  obtain a where "(pause s)\<lparr>isPlaying := True\<rparr> = s\<lparr>animationId := a\<rparr>"
    using assms pause_playing by blast
  then show ?thesis
    using assms by (simp add: resume_def pause_fields animate_animationId)
qed

lemma exampleSystem_fields:
  "isPlaying exampleSystem"
  "time exampleSystem = 0"
  "speed exampleSystem = 1"
  "particleCount exampleSystem = 5000"
  "particleShape exampleSystem = ''circle''"
  "colorTransition exampleSystem"
  "mouseInteraction exampleSystem"
  "particleGeometry exampleSystem =
     Some (createGeometry exampleRandom 5000 2 (Color 1 0 0) (Color 0 1 0))"
  by (simp_all add: exampleSystem_def ParticleSystem_fields)

lemma explosionSystem_fields:
  "isPlaying explosionSystem"
  "currentPreset explosionSystem = ''explosion''"
  "particleCount explosionSystem = 5000"
  "particleGeometry explosionSystem =
     Some (createGeometry exampleRandom 5000 2 (Color 1 0 0) (Color 0 1 0))"
  by (simp_all add: explosionSystem_def setPreset_fields exampleSystem_fields)

section \<open>The explosion preset\<close>

lemma explosion_frame:
  assumes "isPlaying s" and "currentPreset s = ''explosion''"
    and "particleGeometry s = Some g" and "i < particleCount s"
    and "particleCount s * 3 \<le> length (positions g)"
  shows "\<exists>g'. particleGeometry (animate s) = Some g' \<and>
           position_at g' i =
             (let q = applyExplosionAnimation (position_at g i) i (time (animate s));
                  m = Vector3 (mouse_x s * 10) (mouse_y s * 10) 0;
                  q' = (if mouseInteraction s
                        then add_v3 q (multiplyScalar (normalize (sub_v3 q m))
                                         (max 0 (1 - distanceTo q m / 50) * mouseInfluence s))
                        else q)
              in add_v3 q' (Vector3 (sin (time (animate s) + phases g ! i) * 0.5)
                                    (cos (time (animate s) + phases g ! i) * 0.5)
                                    (sin (time (animate s) * 0.5 + phases g ! i) * 0.3)))"
proof -
  let ?s = "s\<lparr>animationId := Some (nextRequestId s), nextRequestId := nextRequestId s + 1,
                time := time s + 0.016 * speed s\<rparr>"
  have t: "time (animate s) = time ?s" using assms(1) by (simp add: animate_time)
  have i3: "i * 3 + 2 < length (positions g)" using assms(4,5) by linarith
  have p: "currentPreset ?s = ''explosion''" using assms(2) by simp
  have "position_at (fold (updateParticle ?s) [0..<particleCount s] g) i =
        position_at (updateParticle ?s i g) i"
    using assms(4,5) by (rule fold_updateParticle_position_at)
  then show ?thesis
    using animate_geometry [OF assms(1,3)] updateParticle_explosion [OF p i3] t
    by (simp add: Let_def)
qed

text \<open>
  C4. The explosion preset computes the factor \<open>sin (time * 0.5) * 0.5 + 0.5\<close>, which lies
  between 0 and 1 at every time, and adds twice that factor along the normalized direction
  of the position to the position it is given; a position other than the origin ends
  farther from the origin by exactly twice the factor. In a frame under this preset the
  position it is given is the one stored for the particle by the frame before, and what is
  stored back is the displaced position, pushed by the pointer when pointer interaction is
  on, plus the jitter: the displacement of each frame is added to the already displaced
  position.
\<close>

theorem explosion_displacement_compounds:
  "explosionFactor t = sin (t * 0.5) * 0.5 + 0.5 \<and>
   0 \<le> explosionFactor t \<and> explosionFactor t \<le> 1 \<and>
   applyExplosionAnimation p i t =
     add_v3 p (multiplyScalar (normalize p) (explosionFactor t * 2)) \<and>
   length_v3 (applyExplosionAnimation p i t) =
     (if length_v3 p = 0 then 0 else length_v3 p + 2 * explosionFactor t) \<and>
   (isPlaying s \<and> currentPreset s = ''explosion'' \<and>
    particleGeometry s = Some g \<and> j < particleCount s \<and>
    particleCount s * 3 \<le> length (positions g) \<longrightarrow>
      (\<exists>g'. particleGeometry (animate s) = Some g' \<and>
         position_at g' j =
           (let q = applyExplosionAnimation (position_at g j) j (time (animate s));
                m = Vector3 (mouse_x s * 10) (mouse_y s * 10) 0;
                q' = (if mouseInteraction s
                      then add_v3 q (multiplyScalar (normalize (sub_v3 q m))
                                       (max 0 (1 - distanceTo q m / 50) * mouseInfluence s))
                      else q)
            in add_v3 q' (Vector3 (sin (time (animate s) + phases g ! j) * 0.5)
                                  (cos (time (animate s) + phases g ! j) * 0.5)
                                  (sin (time (animate s) * 0.5 + phases g ! j) * 0.3)))))"
proof (intro conjI impI)
  show "explosionFactor t = sin (t * 0.5) * 0.5 + 0.5"
    by (simp add: explosionFactor_def)
  show "0 \<le> explosionFactor t" and "explosionFactor t \<le> 1"
    using explosionFactor_range by simp_all
  show "applyExplosionAnimation p i t =
     add_v3 p (multiplyScalar (normalize p) (explosionFactor t * 2))"
    by (simp add: applyExplosionAnimation_def)
  show "length_v3 (applyExplosionAnimation p i t) =
     (if length_v3 p = 0 then 0 else length_v3 p + 2 * explosionFactor t)"
    by (rule explosion_length)
next
  assume h: "isPlaying s \<and> currentPreset s = ''explosion'' \<and>
    particleGeometry s = Some g \<and> j < particleCount s \<and>
    particleCount s * 3 \<le> length (positions g)"
  show "\<exists>g'. particleGeometry (animate s) = Some g' \<and>
         position_at g' j =
           (let q = applyExplosionAnimation (position_at g j) j (time (animate s));
                m = Vector3 (mouse_x s * 10) (mouse_y s * 10) 0;
                q' = (if mouseInteraction s
                      then add_v3 q (multiplyScalar (normalize (sub_v3 q m))
                                       (max 0 (1 - distanceTo q m / 50) * mouseInfluence s))
                      else q)
            in add_v3 q' (Vector3 (sin (time (animate s) + phases g ! j) * 0.5)
                                  (cos (time (animate s) + phases g ! j) * 0.5)
                                  (sin (time (animate s) * 0.5 + phases g ! j) * 0.3)))"
    using h by (intro explosion_frame) simp_all
qed

text \<open>
  C4, an instance: particle 7 of the example system under the explosion preset, whose
  5000 particles fill a position array of 15000 entries. After one frame the system is in
  the same situation again, so the next frame displaces the displaced position.
\<close>

theorem explosion_displacement_compounds_witness:
  "isPlaying explosionSystem \<and>
   currentPreset explosionSystem = ''explosion'' \<and>
   particleGeometry explosionSystem =
     Some (createGeometry exampleRandom 5000 2 (Color 1 0 0) (Color 0 1 0)) \<and>
   7 < particleCount explosionSystem \<and>
   particleCount explosionSystem * 3
     \<le> length (positions (createGeometry exampleRandom 5000 2 (Color 1 0 0) (Color 0 1 0))) \<and>
   (\<exists>g'. particleGeometry (animate explosionSystem) = Some g' \<and>
      position_at g' 7 =
        (let q = applyExplosionAnimation
                   (position_at (createGeometry exampleRandom 5000 2 (Color 1 0 0) (Color 0 1 0)) 7)
                   7 (time (animate explosionSystem));
             m = Vector3 (mouse_x explosionSystem * 10) (mouse_y explosionSystem * 10) 0;
             q' = (if mouseInteraction explosionSystem
                   then add_v3 q (multiplyScalar (normalize (sub_v3 q m))
                                    (max 0 (1 - distanceTo q m / 50) * mouseInfluence explosionSystem))
                   else q)
         in add_v3 q'
              (Vector3
                 (sin (time (animate explosionSystem) +
                    phases (createGeometry exampleRandom 5000 2 (Color 1 0 0) (Color 0 1 0)) ! 7) * 0.5)
                 (cos (time (animate explosionSystem) +
                    phases (createGeometry exampleRandom 5000 2 (Color 1 0 0) (Color 0 1 0)) ! 7) * 0.5)
                 (sin (time (animate explosionSystem) * 0.5 +
                    phases (createGeometry exampleRandom 5000 2 (Color 1 0 0) (Color 0 1 0)) ! 7) * 0.3))))"
proof -
  let ?g = "createGeometry exampleRandom 5000 2 (Color 1 0 0) (Color 0 1 0)"
  have h: "isPlaying explosionSystem \<and> currentPreset explosionSystem = ''explosion'' \<and>
      particleGeometry explosionSystem = Some ?g \<and>
      7 < particleCount explosionSystem \<and>
      particleCount explosionSystem * 3 \<le> length (positions ?g)"
    by (simp add: explosionSystem_fields createGeometry_length)
  show ?thesis
    using h explosion_displacement_compounds [of 0 "Vector3 0 0 0" 0 explosionSystem ?g 7]
    by blast
qed

section \<open>Pause and resume\<close>

text \<open>
  C3, as the code has it. After \<open>pause\<close>, any number of invocations of the frame callback
  leave the whole state as \<open>pause\<close> left it, and \<open>pause\<close> itself changes neither the
  elapsed time nor the attribute arrays. \<open>resume\<close> runs one frame itself: for a system that
  was playing, the state right after \<open>resume\<close> is the state one frame without the pause
  and resume would have produced, however many callbacks came in between; one more frame
  after \<open>resume\<close> gives the state of two frames.
\<close>

theorem pause_freezes_and_resume_runs_one_frame:
  "(animate ^^ n) (pause s) = pause s \<and>
   time (pause s) = time s \<and>
   particleGeometry (pause s) = particleGeometry s \<and>
   (isPlaying s \<longrightarrow>
      resume ((animate ^^ n) (pause s)) = animate s \<and>
      animate (resume ((animate ^^ n) (pause s))) = animate (animate s))"
  by (simp add: funpow_animate_paused pause_fields resume_pause)

text \<open>C3, an instance: the example system after \<open>start\<close>, paused for ten callbacks.\<close>

theorem pause_freezes_and_resume_runs_one_frame_witness:
  "isPlaying (start exampleSystem) \<and>
   (animate ^^ 10) (pause (start exampleSystem)) = pause (start exampleSystem) \<and>
   time (pause (start exampleSystem)) = time (start exampleSystem) \<and>
   particleGeometry (pause (start exampleSystem)) = particleGeometry (start exampleSystem) \<and>
   resume ((animate ^^ 10) (pause (start exampleSystem))) = animate (start exampleSystem) \<and>
   animate (resume ((animate ^^ 10) (pause (start exampleSystem)))) =
     animate (animate (start exampleSystem))"
proof -
  have h: "isPlaying (start exampleSystem)" by (simp add: start_fields)
  show ?thesis
    using h pause_freezes_and_resume_runs_one_frame [of 10 "start exampleSystem"] by blast
qed

text \<open>
  C3 as stated fails: after \<open>start\<close>, pausing, resuming and advancing one frame leaves a
  later elapsed time than advancing one frame alone, because \<open>resume\<close> has already run a
  frame of its own.
\<close>

theorem resume_then_frame_counterexample:
  "time (animate (resume ((animate ^^ 10) (pause (start exampleSystem))))) = 0.048 \<and>
   time (animate (start exampleSystem)) = 0.032 \<and>
   time (animate (resume ((animate ^^ 10) (pause (start exampleSystem))))) \<noteq>
   time (animate (start exampleSystem))"
proof -
  have h: "isPlaying (start exampleSystem)" by (simp add: start_fields)
  have "resume ((animate ^^ 10) (pause (start exampleSystem))) = animate (start exampleSystem)"
    by (simp add: funpow_animate_paused pause_fields resume_pause h)
  then show ?thesis
    by (simp add: animate_time animate_config start_fields exampleSystem_fields)
qed

section \<open>Elapsed time\<close>

text \<open>
  C5, as the code has it. A frame that runs while the system is playing advances the
  elapsed time by exactly \<open>0.016 * speed\<close>, a fixed step that does not depend on the real
  frame interval, and a frame callback on a paused system leaves the time as it is. The
  elapsed time does not decrease over any number of frames when the speed is not negative.
  Sixty frames at speed 1 from time 0 give the elapsed time 0.96.
\<close>

theorem animate_advances_time_by_fixed_step:
  "(isPlaying s \<longrightarrow> time (animate s) = time s + 0.016 * speed s) \<and>
   (\<not> isPlaying s \<longrightarrow> time (animate s) = time s) \<and>
   (0 \<le> speed s \<longrightarrow> time s \<le> time ((animate ^^ n) s)) \<and>
   (isPlaying s \<and> speed s = 1 \<and> time s = 0 \<longrightarrow> time ((animate ^^ 60) s) = 0.96)"
proof (intro conjI impI)
  show "isPlaying s \<Longrightarrow> time (animate s) = time s + 0.016 * speed s"
    by (simp add: animate_time)
  show "\<not> isPlaying s \<Longrightarrow> time (animate s) = time s"
    by (simp add: animate_time)
  show "0 \<le> speed s \<Longrightarrow> time s \<le> time ((animate ^^ n) s)"
  proof (cases "isPlaying s")
    case True
    assume "0 \<le> speed s"
    then have "0 \<le> real n * (0.016 * speed s)" by simp
    then show ?thesis using True by (simp add: funpow_animate_time)
  next
    case False
    then show ?thesis by (simp add: funpow_animate_paused)
  qed
  show "isPlaying s \<and> speed s = 1 \<and> time s = 0 \<Longrightarrow> time ((animate ^^ 60) s) = 0.96"
    by (simp add: funpow_animate_time)
qed

text \<open>
  C5, an instance: the system the constructor builds (5000 particles, speed 1, time 0)
  with the explosion preset, and the same system paused.
\<close>

theorem animate_advances_time_by_fixed_step_witness:
  "isPlaying (setPreset ''explosion'' exampleSystem) \<and>
   time (animate (setPreset ''explosion'' exampleSystem)) =
     time (setPreset ''explosion'' exampleSystem) +
       0.016 * speed (setPreset ''explosion'' exampleSystem) \<and>
   \<not> isPlaying (pause exampleSystem) \<and>
   time (animate (pause exampleSystem)) = time (pause exampleSystem) \<and>
   0 \<le> speed (setPreset ''explosion'' exampleSystem) \<and>
   time (setPreset ''explosion'' exampleSystem)
     \<le> time ((animate ^^ 100) (setPreset ''explosion'' exampleSystem)) \<and>
   speed (setPreset ''explosion'' exampleSystem) = 1 \<and>
   time (setPreset ''explosion'' exampleSystem) = 0 \<and>
   particleCount (setPreset ''explosion'' exampleSystem) = 5000 \<and>
   time ((animate ^^ 60) (setPreset ''explosion'' exampleSystem)) = 0.96"
proof -
  let ?s = "setPreset ''explosion'' exampleSystem"
  have h: "isPlaying ?s" "0 \<le> speed ?s" "speed ?s = 1" "time ?s = 0" "particleCount ?s = 5000"
    by (simp_all add: setPreset_fields exampleSystem_fields)
  have p: "\<not> isPlaying (pause exampleSystem)" by (simp add: pause_fields)
  show ?thesis
    using h p animate_advances_time_by_fixed_step [of ?s 100]
      animate_advances_time_by_fixed_step [of "pause exampleSystem" 0]
    by blast
qed

text \<open>
  C5 as stated fails twice. With a frame interval of one sixtieth of a second and speed
  1, a frame advances the time by 0.016, not by the interval times the speed. With the
  speed set to \<open>- 1\<close> by a property update, a frame makes the elapsed time smaller.
\<close>

theorem frame_interval_and_monotone_counterexample:
  "time (start exampleSystem) = 0.016 \<and>
   speed (start exampleSystem) = 1 \<and>
   time (animate (start exampleSystem)) = 0.032 \<and>
   time (animate (start exampleSystem)) \<noteq>
     time (start exampleSystem) + (1 / 60) * speed (start exampleSystem) \<and>
   speed (updateProperties exampleRandom (emptyProperties\<lparr>speed_opt := Some (- 1)\<rparr>)
           (start exampleSystem)) = - 1 \<and>
   time (animate (updateProperties exampleRandom (emptyProperties\<lparr>speed_opt := Some (- 1)\<rparr>)
           (start exampleSystem))) = 0 \<and>
   time (animate (updateProperties exampleRandom (emptyProperties\<lparr>speed_opt := Some (- 1)\<rparr>)
           (start exampleSystem)))
     < time (updateProperties exampleRandom (emptyProperties\<lparr>speed_opt := Some (- 1)\<rparr>)
           (start exampleSystem))"
  by (simp add: animate_time updateProperties_fields start_fields exampleSystem_fields
        emptyProperties_def)

section \<open>Colours without colour transition\<close>

text \<open>
  C8. With colour transition disabled, the colour array after any number of frames is the
  colour array before them, entry for entry: no frame writes to it.
\<close>

theorem colors_fixed_without_transition:
  "\<not> colorTransition s \<Longrightarrow>
   map_option colors (particleGeometry ((animate ^^ n) s)) = map_option colors (particleGeometry s)"
  by (rule funpow_animate_colors)

text \<open>
  C8, an instance: the example system with colour transition switched off by a property
  update, after 100 frames.
\<close>

theorem colors_fixed_without_transition_witness:
  "\<not> colorTransition (updateProperties exampleRandom
        (emptyProperties\<lparr>colorTransition_opt := Some False\<rparr>) exampleSystem) \<and>
   map_option colors (particleGeometry ((animate ^^ 100) (updateProperties exampleRandom
        (emptyProperties\<lparr>colorTransition_opt := Some False\<rparr>) exampleSystem))) =
   map_option colors (particleGeometry (updateProperties exampleRandom
        (emptyProperties\<lparr>colorTransition_opt := Some False\<rparr>) exampleSystem))"
proof -
  have h: "\<not> colorTransition (updateProperties exampleRandom
        (emptyProperties\<lparr>colorTransition_opt := Some False\<rparr>) exampleSystem)"
    by (simp add: updateProperties_fields emptyProperties_def)
  show ?thesis
    using h colors_fixed_without_transition [OF h, of 100] by blast
qed

section \<open>Recreation of the population\<close>

text \<open>
  C6. A property update constructs a new geometry exactly when it brings a particle count
  or a shape name different from the current one; the new arrays are then the freshly
  created ones. Every other update (colours, sizes, speed, toggles, pointer strength,
  or a count or shape equal to the current one) constructs nothing and leaves the geometry,
  and with it every phase, as it was; so does the selection of a preset.
\<close>

theorem updateProperties_recreates_exactly_on_count_or_shape_change:
  "(((\<exists>n. particleCount_opt p = Some n \<and> n \<noteq> particleCount s) \<or>
     (\<exists>sh. particleShape_opt p = Some sh \<and> sh \<noteq> particleShape s)) \<longrightarrow>
      geometriesCreated (updateProperties rnd p s) = geometriesCreated s + 1 \<and>
      particleGeometry (updateProperties rnd p s) =
        Some (createGeometry rnd (particleCount (updateProperties rnd p s))
                (particleSize (updateProperties rnd p s)) (baseColor (updateProperties rnd p s))
                (accentColor (updateProperties rnd p s)))) \<and>
   (\<not> ((\<exists>n. particleCount_opt p = Some n \<and> n \<noteq> particleCount s) \<or>
       (\<exists>sh. particleShape_opt p = Some sh \<and> sh \<noteq> particleShape s)) \<longrightarrow>
      geometriesCreated (updateProperties rnd p s) = geometriesCreated s \<and>
      particleGeometry (updateProperties rnd p s) = particleGeometry s \<and>
      map_option phases (particleGeometry (updateProperties rnd p s)) =
        map_option phases (particleGeometry s)) \<and>
   geometriesCreated (setPreset presetName s) = geometriesCreated s \<and>
   particleGeometry (setPreset presetName s) = particleGeometry s"
proof (cases "needsRecreate p s")
  case True
  then show ?thesis
    using updateProperties_recreate [of p s rnd]
    by (simp only: needsRecreate_iff) (simp add: setPreset_def)
next
  case False
  then show ?thesis
    using updateProperties_keep [of p s rnd]
    by (simp only: needsRecreate_iff) (simp add: setPreset_def)
qed

text \<open>
  C6, two instances on the example system: an update of the base colour alone keeps the
  geometry, an update of the shape to star constructs a new one.
\<close>

theorem updateProperties_recreates_exactly_on_count_or_shape_change_witness:
  "\<not> ((\<exists>n. particleCount_opt (emptyProperties\<lparr>baseColor_opt := Some (Color 0 0 1)\<rparr>) = Some n \<and>
           n \<noteq> particleCount exampleSystem) \<or>
       (\<exists>sh. particleShape_opt (emptyProperties\<lparr>baseColor_opt := Some (Color 0 0 1)\<rparr>) = Some sh \<and>
           sh \<noteq> particleShape exampleSystem)) \<and>
   geometriesCreated (updateProperties exampleRandom
       (emptyProperties\<lparr>baseColor_opt := Some (Color 0 0 1)\<rparr>) exampleSystem) =
     geometriesCreated exampleSystem \<and>
   map_option phases (particleGeometry (updateProperties exampleRandom
       (emptyProperties\<lparr>baseColor_opt := Some (Color 0 0 1)\<rparr>) exampleSystem)) =
     map_option phases (particleGeometry exampleSystem) \<and>
   ((\<exists>n. particleCount_opt (emptyProperties\<lparr>particleShape_opt := Some ''star''\<rparr>) = Some n \<and>
        n \<noteq> particleCount exampleSystem) \<or>
    (\<exists>sh. particleShape_opt (emptyProperties\<lparr>particleShape_opt := Some ''star''\<rparr>) = Some sh \<and>
        sh \<noteq> particleShape exampleSystem)) \<and>
   geometriesCreated (updateProperties exampleRandom
       (emptyProperties\<lparr>particleShape_opt := Some ''star''\<rparr>) exampleSystem) =
     geometriesCreated exampleSystem + 1"
proof -
  have keep: "\<not> ((\<exists>n. particleCount_opt (emptyProperties\<lparr>baseColor_opt := Some (Color 0 0 1)\<rparr>) = Some n \<and>
           n \<noteq> particleCount exampleSystem) \<or>
       (\<exists>sh. particleShape_opt (emptyProperties\<lparr>baseColor_opt := Some (Color 0 0 1)\<rparr>) = Some sh \<and>
           sh \<noteq> particleShape exampleSystem))"
    by (simp add: emptyProperties_def)
  have change: "(\<exists>n. particleCount_opt (emptyProperties\<lparr>particleShape_opt := Some ''star''\<rparr>) = Some n \<and>
        n \<noteq> particleCount exampleSystem) \<or>
    (\<exists>sh. particleShape_opt (emptyProperties\<lparr>particleShape_opt := Some ''star''\<rparr>) = Some sh \<and>
        sh \<noteq> particleShape exampleSystem)"
    by (simp add: emptyProperties_def exampleSystem_fields)
  show ?thesis
    using keep change
      updateProperties_recreates_exactly_on_count_or_shape_change
        [of "emptyProperties\<lparr>baseColor_opt := Some (Color 0 0 1)\<rparr>" exampleSystem exampleRandom]
      updateProperties_recreates_exactly_on_count_or_shape_change
        [of "emptyProperties\<lparr>particleShape_opt := Some ''star''\<rparr>" exampleSystem exampleRandom]
    by blast
qed

section \<open>Phases\<close>

lemma step_phases:
  assumes "\<not> recreates c s"
  shows "map_option phases (particleGeometry (step c s)) = map_option phases (particleGeometry s)"
proof (cases c)
  case (UpdateProperties rnd p)
  then have "\<not> needsRecreate p s"
    using assms recreates_UpdateProperties by blast
  then show ?thesis
    using UpdateProperties by (simp add: updateProperties_keep)
next
  case (Reset rnd)
  then show ?thesis using assms by simp
qed (simp_all add: animate_geometry_fixed start_def resume_def pause_fields setPreset_fields)

lemma run_phases:
  "no_recreation cs s \<Longrightarrow>
   map_option phases (particleGeometry (run cs s)) = map_option phases (particleGeometry s)"
  by (induction cs arbitrary: s) (simp_all add: step_phases)

lemma reset_phases:
  "map_option phases (particleGeometry (reset rnd s)) =
     Some (map (\<lambda>i. rnd (9 * i + 8) * pi * 2) [0..<particleCount (reset rnd s)])"
  by (simp add: reset_def createParticles_def createGeometry_phases)

lemma recreate_phases:
  "needsRecreate p s \<Longrightarrow>
   map_option phases (particleGeometry (updateProperties rnd p s)) =
     Some (map (\<lambda>i. rnd (9 * i + 8) * pi * 2) [0..<particleCount (updateProperties rnd p s)])"
  by (simp add: updateProperties_recreate createGeometry_phases)

text \<open>
  C7. No number of frames changes a phase, under any preset and configuration, and neither
  does any sequence of calls (frames, start, pause, resume, preset selection, property
  updates) in which no call recreates the population. A call that recreates it assigns
  every phase anew from the random numbers of that very call: after \<open>reset\<close>, and after a
  property update with a different particle count or shape, phase \<open>i\<close> is \<open>2 * pi\<close> times
  the ninth number drawn for particle \<open>i\<close>, for every particle of the new population.
\<close>

theorem phases_change_only_on_recreation:
  "map_option phases (particleGeometry ((animate ^^ n) s)) = map_option phases (particleGeometry s) \<and>
   (no_recreation cs s \<longrightarrow>
      map_option phases (particleGeometry (run cs s)) = map_option phases (particleGeometry s)) \<and>
   map_option phases (particleGeometry (step (Reset rnd) s)) =
     Some (map (\<lambda>i. rnd (9 * i + 8) * pi * 2) [0..<particleCount s]) \<and>
   (recreates (UpdateProperties rnd p) s \<longrightarrow>
      map_option phases (particleGeometry (step (UpdateProperties rnd p) s)) =
        Some (map (\<lambda>i. rnd (9 * i + 8) * pi * 2)
               [0..<(case particleCount_opt p of Some v \<Rightarrow> v | None \<Rightarrow> particleCount s)]))"
proof (intro conjI impI)
  show "map_option phases (particleGeometry ((animate ^^ n) s)) =
        map_option phases (particleGeometry s)"
    by (rule funpow_animate_phases)
next
  assume "no_recreation cs s"
  then show "map_option phases (particleGeometry (run cs s)) =
             map_option phases (particleGeometry s)"
    by (rule run_phases)
next
  have "particleCount (reset rnd s) = particleCount s"
    by (simp add: reset_def createParticles_def)
  then show "map_option phases (particleGeometry (step (Reset rnd) s)) =
        Some (map (\<lambda>i. rnd (9 * i + 8) * pi * 2) [0..<particleCount s])"
    using reset_phases [of rnd s] by simp
next
  assume "recreates (UpdateProperties rnd p) s"
  then have "needsRecreate p s"
    using recreates_UpdateProperties by blast
  then show "map_option phases (particleGeometry (step (UpdateProperties rnd p) s)) =
        Some (map (\<lambda>i. rnd (9 * i + 8) * pi * 2)
               [0..<(case particleCount_opt p of Some v \<Rightarrow> v | None \<Rightarrow> particleCount s)])"
    using recreate_phases [of p s rnd] by (simp add: updateProperties_fields)
qed

text \<open>
  C7, an instance on the example system, whose phases come from the random source that
  returns one half: a sequence of frames, pause, resume, a preset change and a colour
  update keeps them; \<open>reset\<close> with the source that returns one quarter assigns the phases
  of that source, which are not the old ones; and a property update that sets the particle
  count to 3 assigns three phases of that source.
\<close>

theorem phases_change_only_on_recreation_witness:
  "no_recreation
     [Start, Animate, Pause, Animate, Resume, SetPreset ''galaxy'',
      UpdateProperties exampleRandom (emptyProperties\<lparr>baseColor_opt := Some (Color 0 0 1)\<rparr>),
      Animate] exampleSystem \<and>
   map_option phases (particleGeometry (run
     [Start, Animate, Pause, Animate, Resume, SetPreset ''galaxy'',
      UpdateProperties exampleRandom (emptyProperties\<lparr>baseColor_opt := Some (Color 0 0 1)\<rparr>),
      Animate] exampleSystem)) = map_option phases (particleGeometry exampleSystem) \<and>
   map_option phases (particleGeometry (step (Reset quarterRandom) exampleSystem)) =
     Some (map (\<lambda>i. quarterRandom (9 * i + 8) * pi * 2) [0..<particleCount exampleSystem]) \<and>
   map_option phases (particleGeometry (step (Reset quarterRandom) exampleSystem)) \<noteq>
     map_option phases (particleGeometry exampleSystem) \<and>
   recreates (UpdateProperties quarterRandom (emptyProperties\<lparr>particleCount_opt := Some 3\<rparr>))
     exampleSystem \<and>
   map_option phases (particleGeometry
     (step (UpdateProperties quarterRandom (emptyProperties\<lparr>particleCount_opt := Some 3\<rparr>))
        exampleSystem)) = Some [pi / 2, pi / 2, pi / 2]"
proof -
  let ?cs = "[Start, Animate, Pause, Animate, Resume, SetPreset ''galaxy'',
      UpdateProperties exampleRandom (emptyProperties\<lparr>baseColor_opt := Some (Color 0 0 1)\<rparr>),
      Animate]"
  let ?p = "emptyProperties\<lparr>particleCount_opt := Some 3\<rparr>"
  note inst = phases_change_only_on_recreation
    [where n = 0 and s = exampleSystem and cs = "?cs" and rnd = quarterRandom and p = "?p"]
  have h1: "no_recreation ?cs exampleSystem"
    by (simp add: emptyProperties_def)
  have h2: "recreates (UpdateProperties quarterRandom ?p) exampleSystem"
    by (simp add: emptyProperties_def exampleSystem_fields)
  have after: "map_option phases (particleGeometry (step (Reset quarterRandom) exampleSystem)) =
     Some (map (\<lambda>i. quarterRandom (9 * i + 8) * pi * 2) [0..<particleCount exampleSystem])"
    using inst by blast
  have before: "map_option phases (particleGeometry exampleSystem) =
     Some (map (\<lambda>i. exampleRandom (9 * i + 8) * pi * 2) [0..<particleCount exampleSystem])"
    by (simp only: exampleSystem_fields option.map createGeometry_phases)
  have zero: "0 \<in> set [0..<particleCount exampleSystem]"
    by (simp only: exampleSystem_fields set_upt atLeastLessThan_iff) simp
  have "quarterRandom (9 * 0 + 8) * pi * 2 \<noteq> exampleRandom (9 * 0 + 8) * pi * 2"
    by (simp add: quarterRandom_def exampleRandom_def)
  then have neq: "map (\<lambda>i. quarterRandom (9 * i + 8) * pi * 2) [0..<particleCount exampleSystem] \<noteq>
             map (\<lambda>i. exampleRandom (9 * i + 8) * pi * 2) [0..<particleCount exampleSystem]"
    using zero by (metis (mono_tags, lifting) map_eq_conv)
  have differ: "map_option phases (particleGeometry (step (Reset quarterRandom) exampleSystem)) \<noteq>
     map_option phases (particleGeometry exampleSystem)"
    unfolding after before using neq by (simp only: option.inject not_False_eq_True)
  have "map_option phases (particleGeometry (step (UpdateProperties quarterRandom ?p) exampleSystem)) =
        Some (map (\<lambda>i. quarterRandom (9 * i + 8) * pi * 2) [0..<3])"
    using inst h2 by (simp add: emptyProperties_def)
  then have three: "map_option phases (particleGeometry
      (step (UpdateProperties quarterRandom ?p) exampleSystem)) = Some [pi / 2, pi / 2, pi / 2]"
    by (simp add: quarterRandom_def upt_rec)
  show ?thesis
    using h1 h2 after differ three inst by blast
qed

end
